theory Spec2Isabelle
  imports Main "HOL-Library.Sublist"
begin

section \<open>Media server model (models/mediaserver.ts)\<close>

text \<open>
  The enum \<open>MediaServerType\<close> and its string values, and the interfaces
  \<open>MediaServerCreate\<close>, \<open>MediaServerRead\<close> and \<open>MediaServerUpdate\<close>.
  \<open>MediaServerRead\<close> has the five fields of \<open>MediaServerCreate\<close> plus \<open>id\<close> and
  \<open>added_at\<close>; it is a record extension, which is the structural subtyping the
  component relies on when it stores a \<open>MediaServerRead\<close> in the form signal.
  The field \<open>id\<close> is written \<open>id'\<close> (\<open>id\<close> is the identity function of HOL).
  Ids are integers: they come from JSON of the backend or from the input transform,
  which never yields NaN.
\<close>

datatype MediaServerType = Emby | Jellyfin | Plex

fun MediaServerType_value :: "MediaServerType \<Rightarrow> string" where
  "MediaServerType_value Emby = ''emby''"
| "MediaServerType_value Jellyfin = ''jellyfin''"
| "MediaServerType_value Plex = ''plex''"

record MediaServerCreate =
  name :: string
  server_type :: MediaServerType
  url :: string
  api_key :: string
  enabled :: bool

record MediaServerRead = MediaServerCreate +
  id' :: int
  added_at :: string

text \<open>\<open>MediaServerUpdate\<close>: every field optional (\<open>name?: string\<close>, ...).\<close>

record MediaServerUpdate =
  name_opt :: "string option"
  server_type_opt :: "MediaServerType option"
  url_opt :: "string option"
  api_key_opt :: "string option"
  enabled_opt :: "bool option"

text \<open>
  A \<open>MediaServerCreate\<close> object passed where a \<open>MediaServerUpdate\<close> is expected
  (TypeScript structural typing): each field is present with its value.
\<close>

definition asMediaServerUpdate :: "MediaServerCreate \<Rightarrow> MediaServerUpdate" where
  "asMediaServerUpdate d =
     \<lparr>name_opt = Some (name d), server_type_opt = Some (server_type d),
      url_opt = Some (url d), api_key_opt = Some (api_key d),
      enabled_opt = Some (enabled d)\<rparr>"

section \<open>Rendering a number in a template string\<close>

text \<open>
  \<open>`${id}`\<close> renders an integer in decimal, with a leading minus sign when it is
  negative.
\<close>

definition digit :: "nat \<Rightarrow> char" where
  "digit d = char_of (of_char CHR ''0'' + d)"

function decimal :: "nat \<Rightarrow> string" where
  "decimal n = (if n < 10 then [digit n] else decimal (n div 10) @ [digit (n mod 10)])"
  by pat_completeness auto
termination
  by (relation "measure (\<lambda>n. n)") auto

declare decimal.simps [simp del]

definition number_toString :: "int \<Rightarrow> string" where
  "number_toString i = (if i < 0 then CHR ''-'' # decimal (nat (- i)) else decimal (nat i))"

section \<open>The service (services/mediaserver.service.ts)\<close>

text \<open>
  What the service sends out is logged in its state: the HTTP calls in \<open>requests\<close>
  (one constructor per operation of the service), the calls of
  \<open>websocketService.showToast\<close> in \<open>toasts\<close> (message and kind), the calls
  of \<open>mediaServersResource.reload\<close> in \<open>reloads\<close>.
  \<open>mediaServers\<close> is \<open>mediaServersResource.value()\<close>, \<open>isLoading\<close> is
  \<open>mediaServersResource.isLoading()\<close>. \<open>constructedAt\<close> is the value of
  \<open>new Date().toISOString()\<close> read once, when the service is constructed.
\<close>

datatype request =
    AddReq MediaServerCreate
  | DeleteReq int
  | TestReq MediaServerCreate
  | UpdateReq int MediaServerUpdate

record MediaServerService =
  mediaServers :: "MediaServerRead list"
  isLoading :: bool
  constructedAt :: string
  mediaServerID :: int
  requests :: "request list"
  toasts :: "(string \<times> string) list"
  reloads :: nat

definition newMediaServer :: "MediaServerService \<Rightarrow> MediaServerRead" where
  "newMediaServer svc =
     \<lparr>name = '''', server_type = Emby, url = '''', api_key = '''', enabled = True,
      id' = - 1, added_at = constructedAt svc\<rparr>"

definition selectedMediaServer :: "MediaServerService \<Rightarrow> MediaServerRead" where
  "selectedMediaServer svc =
     (case find (\<lambda>s. id' s = mediaServerID svc) (mediaServers svc) of
        Some server \<Rightarrow> server
      | None \<Rightarrow> newMediaServer svc)"

text \<open>
  Modelled from the spec: \<open>WebsocketService.showToast\<close> (websocket.service.ts is not
  among the sources) emits a user-visible notification; here it appends the message
  and its kind to the log \<open>toasts\<close>.
\<close>

definition showToast :: "string \<Rightarrow> string \<Rightarrow> MediaServerService \<Rightarrow> MediaServerService" where
  "showToast message kind svc = svc\<lparr>toasts := toasts svc @ [(message, kind)]\<rparr>"

definition addMediaServer :: "MediaServerCreate \<Rightarrow> MediaServerService \<Rightarrow> MediaServerService" where
  "addMediaServer mediaServer svc = svc\<lparr>requests := requests svc @ [AddReq mediaServer]\<rparr>"

definition mediaServerExists :: "int \<Rightarrow> MediaServerService \<Rightarrow> bool \<times> MediaServerService" where
  "mediaServerExists i svc =
     (let exists = list_ex (\<lambda>s. id' s = i) (mediaServers svc) in
      if exists then (True, svc)
      else if i \<noteq> - 1 then
        (False,
         showToast (''Media Server with ID '' @ [CHR 0x27] @ number_toString i @ [CHR 0x27]
                    @ '' does not exist.'') ''error'' svc)
      else (False, svc))"

definition deleteMediaServer_call :: "int \<Rightarrow> MediaServerService \<Rightarrow> MediaServerService" where
  "deleteMediaServer_call i svc = svc\<lparr>requests := requests svc @ [DeleteReq i]\<rparr>"

definition testMediaServer :: "MediaServerCreate \<Rightarrow> MediaServerService \<Rightarrow> MediaServerService" where
  "testMediaServer mediaServer svc = svc\<lparr>requests := requests svc @ [TestReq mediaServer]\<rparr>"

definition updateMediaServer_call ::
  "int \<Rightarrow> MediaServerUpdate \<Rightarrow> MediaServerService \<Rightarrow> MediaServerService" where
  "updateMediaServer_call i mediaServer svc =
     svc\<lparr>requests := requests svc @ [UpdateReq i mediaServer]\<rparr>"

definition reload :: "MediaServerService \<Rightarrow> MediaServerService" where
  "reload svc = svc\<lparr>reloads := Suc (reloads svc)\<rparr>"

section \<open>Form validation (the schema of \<open>mediaServerForm\<close>)\<close>

text \<open>
  The validators of \<open>@angular/forms/signals\<close> used by the schema, on string fields:
  \<open>required\<close> reports an empty value; \<open>minLength\<close>, \<open>maxLength\<close> and
  \<open>pattern\<close> skip an empty value and otherwise compare the length, or test the
  regular expression. Each returns the list of its error messages.
  The regular expression is \<open>/^https?:\/\/.*/\<close>: \<open>http\<close>, an optional \<open>s\<close>,
  then \<open>://\<close>, at the start of the value; \<open>.*\<close> also matches nothing.
\<close>

definition isEmpty :: "string \<Rightarrow> bool" where
  "isEmpty v = (v = [])"

definition required :: "string \<Rightarrow> string \<Rightarrow> string list" where
  "required v message = (if isEmpty v then [message] else [])"

definition minLength :: "string \<Rightarrow> nat \<Rightarrow> string \<Rightarrow> string list" where
  "minLength v n message =
     (if isEmpty v then [] else if length v < n then [message] else [])"

definition maxLength :: "string \<Rightarrow> nat \<Rightarrow> string \<Rightarrow> string list" where
  "maxLength v n message =
     (if isEmpty v then [] else if n < length v then [message] else [])"

definition url_regex_test :: "string \<Rightarrow> bool" where
  "url_regex_test v =
     (take 4 v = ''http'' \<and>
      (let r = drop 4 v;
           r' = (if take 1 r = ''s'' \<and> take 3 (drop 1 r) = ''://'' then drop 1 r else r)
       in take 3 r' = ''://''))"

definition pattern_url :: "string \<Rightarrow> string \<Rightarrow> string list" where
  "pattern_url v message =
     (if isEmpty v then [] else if \<not> url_regex_test v then [message] else [])"

definition mediaServerForm_errors :: "MediaServerCreate \<Rightarrow> string list" where
  "mediaServerForm_errors f =
     required (api_key f) ''API Key is required.''
     @ minLength (api_key f) 10 ''API Key must be at least 10 characters long.''
     @ maxLength (api_key f) 200 ''API Key cannot be longer than 200 characters.''
     @ required (name f) ''Name is required.''
     @ minLength (name f) 3 ''Name must be at least 3 characters long.''
     @ required (url f) ''URL is required.''
     @ minLength (url f) 5 ''URL must be at least 5 characters long.''
     @ pattern_url (url f) ''URL must start with http:// or https://.''"

definition valid :: "MediaServerCreate \<Rightarrow> bool" where
  "valid f = (mediaServerForm_errors f = [])"

section \<open>Strings: \<open>toLowerCase\<close> and \<open>includes\<close>\<close>

text \<open>
  \<open>toLowerCase\<close> on the characters of HOL (bytes): the letters \<open>A\<close> to \<open>Z\<close>
  become \<open>a\<close> to \<open>z\<close>, every other character stays.
  \<open>includes_str s pat\<close> (the method \<open>includes\<close>) holds when \<open>pat\<close> occurs in \<open>s\<close> as a contiguous run.
\<close>

definition lower_char :: "char \<Rightarrow> char" where
  "lower_char c =
     (let n = (of_char c :: nat) in if 65 \<le> n \<and> n \<le> 90 then char_of (n + 32) else c)"

definition toLowerCase :: "string \<Rightarrow> string" where
  "toLowerCase s = map lower_char s"

fun includes_str :: "string \<Rightarrow> string \<Rightarrow> bool" where
  "includes_str [] pat = (pat = [])"
| "includes_str (c # cs) pat = (prefix pat (c # cs) \<or> includes_str cs pat)"

section \<open>The edit component (settings/mediaservers/mediaservers.component.ts)\<close>

subsection \<open>The input \<open>mediaServerId\<close> and its transform\<close>

text \<open>
  The router binds the route parameter to the input: a string when the parameter is
  there, \<open>undefined\<close> when it is absent. \<open>Number(value)\<close> is NaN (\<open>None\<close>) on
  \<open>undefined\<close>, the number itself on a number, and the conversion
  \<open>StringToNumber\<close> of the language on a string, which is a parameter here.
\<close>

datatype unknown_value = Undefined | NumberValue int | StringValue string

fun Number_of :: "(string \<Rightarrow> int option) \<Rightarrow> unknown_value \<Rightarrow> int option" where
  "Number_of StringToNumber Undefined = None"
| "Number_of StringToNumber (NumberValue n) = Some n"
| "Number_of StringToNumber (StringValue s) = StringToNumber s"

definition mediaServerId_transform :: "(string \<Rightarrow> int option) \<Rightarrow> unknown_value \<Rightarrow> int" where
  "mediaServerId_transform StringToNumber v =
     (case Number_of StringToNumber v of None \<Rightarrow> - 1 | Some num \<Rightarrow> num)"

subsection \<open>State\<close>

text \<open>
  The signals of the component, the service it injects, and what it sends to the
  router: \<open>navigations\<close> logs the calls of \<open>router.navigate\<close>, \<open>timers\<close> the
  calls of \<open>setTimeout\<close> (delay in milliseconds; the callback of each navigates to
  the list and then reloads the resource).
\<close>

record EditMediaServerComponent =
  service :: MediaServerService
  mediaServerId :: int
  mediaServerCreate :: MediaServerCreate
  isCreate :: bool
  isConnectionTested :: bool
  isReadyToSubmit :: bool
  isSubmitting :: bool
  submitResult :: string
  navigations :: "string list list"
  timers :: "nat list"

definition new_EditMediaServerComponent :: "MediaServerService \<Rightarrow> EditMediaServerComponent" where
  "new_EditMediaServerComponent svc =
     \<lparr>service = svc, mediaServerId = 0,
      mediaServerCreate =
        \<lparr>name = '''', server_type = Emby, url = '''', api_key = '''', enabled = True\<rparr>,
      isCreate = False, isConnectionTested = False, isReadyToSubmit = False,
      isSubmitting = False, submitResult = '''', navigations = [], timers = []\<rparr>"

definition setInput_mediaServerId ::
  "(string \<Rightarrow> int option) \<Rightarrow> unknown_value \<Rightarrow> EditMediaServerComponent \<Rightarrow> EditMediaServerComponent" where
  "setInput_mediaServerId StringToNumber v c =
     c\<lparr>mediaServerId := mediaServerId_transform StringToNumber v\<rparr>"

definition navigate :: "string list \<Rightarrow> EditMediaServerComponent \<Rightarrow> EditMediaServerComponent" where
  "navigate commands c = c\<lparr>navigations := navigations c @ [commands]\<rparr>"

definition setTimeout :: "nat \<Rightarrow> EditMediaServerComponent \<Rightarrow> EditMediaServerComponent" where
  "setTimeout ms c = c\<lparr>timers := timers c @ [ms]\<rparr>"

subsection \<open>Effects\<close>

text \<open>
  An effect runs again whenever a signal it has read changes; here each effect is a
  function of the state. \<open>mediaServerEffect\<close> stores the selected server in the form
  signal, whose declared type is \<open>MediaServerCreate\<close>: the model keeps these five
  fields of it.
\<close>

definition mediaServerIDeffect :: "EditMediaServerComponent \<Rightarrow> EditMediaServerComponent" where
  "mediaServerIDeffect c =
     (let i = mediaServerId c in
      if isLoading (service c) then c
      else if i = - 1 then
        (c\<lparr>isCreate := True\<rparr>)\<lparr>service := (service c)\<lparr>mediaServerID := i\<rparr>\<rparr>
      else
        (case mediaServerExists i (service c) of
           (exists, svc) \<Rightarrow>
             if \<not> exists then navigate [''/settings/mediaservers''] (c\<lparr>service := svc\<rparr>)
             else c\<lparr>service := svc\<lparr>mediaServerID := i\<rparr>\<rparr>))"

definition mediaServerEffect :: "EditMediaServerComponent \<Rightarrow> EditMediaServerComponent" where
  "mediaServerEffect c =
     (if isSubmitting c then c
      else
        let server = selectedMediaServer (service c) in
        c\<lparr>mediaServerCreate := MediaServerCreate.truncate server,
          isCreate := (id' server = - 1),
          isConnectionTested := False,
          isReadyToSubmit := False,
          submitResult := ''''\<rparr>)"

subsection \<open>Handlers and the callbacks of their subscriptions\<close>

text \<open>
  Each handler takes the state and returns the new one. The \<open>next\<close> and
  \<open>error\<close> callbacks of a subscription are functions of their own, run when the
  response arrives; \<open>msg\<close> is the text of \<open>error.message || error\<close>.
\<close>

definition checkFormValidity :: "EditMediaServerComponent \<Rightarrow> bool \<times> EditMediaServerComponent" where
  "checkFormValidity c =
     (if \<not> valid (mediaServerCreate c) then
        (False,
         c\<lparr>submitResult := ''Form is invalid, please correct the errors and try again.''\<rparr>)
      else (True, c))"

definition testConnection :: "EditMediaServerComponent \<Rightarrow> EditMediaServerComponent" where
  "testConnection c =
     (case checkFormValidity c of
        (ok, c1) \<Rightarrow>
          if \<not> ok then c1
          else
            let data = mediaServerCreate c1;
                c2 = c1\<lparr>submitResult := ''Testing connection...''\<rparr>
            in c2\<lparr>service := testMediaServer data (service c2)\<rparr>)"

definition testConnection_next :: "string \<Rightarrow> EditMediaServerComponent \<Rightarrow> EditMediaServerComponent" where
  "testConnection_next result c =
     (let c1 = c\<lparr>submitResult := result\<rparr> in
      if includes_str (toLowerCase result) ''success'' then
        c1\<lparr>isConnectionTested := True,
           isReadyToSubmit := True,
           submitResult := submitResult c1 @ [CHR 0x0A]
             @ ''Connection tested successfully. You can now submit.''\<rparr>
      else c1)"

definition testConnection_error :: "string \<Rightarrow> EditMediaServerComponent \<Rightarrow> EditMediaServerComponent" where
  "testConnection_error msg c = c\<lparr>submitResult := ''Connection failed: '' @ msg\<rparr>"

definition createMediaServer :: "EditMediaServerComponent \<Rightarrow> EditMediaServerComponent" where
  "createMediaServer c =
     (case checkFormValidity c of
        (ok, c1) \<Rightarrow>
          if \<not> ok then c1
          else if isSubmitting c1 then c1
          else
            let c2 = c1\<lparr>isSubmitting := True,
                        submitResult := ''Creating media server, please wait...''\<rparr>;
                data = mediaServerCreate c2
            in c2\<lparr>service := addMediaServer data (service c2)\<rparr>)"

definition createMediaServer_next :: "EditMediaServerComponent \<Rightarrow> EditMediaServerComponent" where
  "createMediaServer_next c =
     setTimeout 2000 (c\<lparr>submitResult := ''Media server created successfully!''\<rparr>)"

definition createMediaServer_error :: "string \<Rightarrow> EditMediaServerComponent \<Rightarrow> EditMediaServerComponent" where
  "createMediaServer_error msg c =
     c\<lparr>isSubmitting := False, submitResult := ''Error creating media server: '' @ msg\<rparr>"

definition updateMediaServer :: "EditMediaServerComponent \<Rightarrow> EditMediaServerComponent" where
  "updateMediaServer c =
     (case checkFormValidity c of
        (ok, c1) \<Rightarrow>
          if \<not> ok then c1
          else if isSubmitting c1 then c1
          else
            let c2 = c1\<lparr>isSubmitting := True,
                        submitResult := ''Updating media server, please wait...''\<rparr>;
                data = mediaServerCreate c2
            in c2\<lparr>service :=
                    updateMediaServer_call (mediaServerId c2) (asMediaServerUpdate data)
                      (service c2)\<rparr>)"

definition updateMediaServer_next :: "EditMediaServerComponent \<Rightarrow> EditMediaServerComponent" where
  "updateMediaServer_next c =
     setTimeout 2000 (c\<lparr>submitResult := ''Media server updated successfully!''\<rparr>)"

definition updateMediaServer_error :: "string \<Rightarrow> EditMediaServerComponent \<Rightarrow> EditMediaServerComponent" where
  "updateMediaServer_error msg c =
     c\<lparr>isSubmitting := False, submitResult := ''Error updating media server: '' @ msg\<rparr>"

definition deleteMediaServer :: "EditMediaServerComponent \<Rightarrow> EditMediaServerComponent" where
  "deleteMediaServer c =
     (case mediaServerExists (mediaServerId c) (service c) of
        (exists, svc) \<Rightarrow>
          if \<not> exists then c\<lparr>service := svc\<rparr>
          else c\<lparr>service := deleteMediaServer_call (mediaServerId c) svc\<rparr>)"

definition deleteMediaServer_next :: "EditMediaServerComponent \<Rightarrow> EditMediaServerComponent" where
  "deleteMediaServer_next c =
     setTimeout 2000
       (c\<lparr>submitResult := ''Media server deleted successfully!'',
          service := reload (service c)\<rparr>)"

definition deleteMediaServer_error :: "string \<Rightarrow> EditMediaServerComponent \<Rightarrow> EditMediaServerComponent" where
  "deleteMediaServer_error msg c = c\<lparr>submitResult := ''Error deleting media server: '' @ msg\<rparr>"

definition onSubmit :: "EditMediaServerComponent \<Rightarrow> EditMediaServerComponent" where
  "onSubmit c =
     (case checkFormValidity c of
        (ok, c1) \<Rightarrow>
          if \<not> ok then c1
          else if \<not> isConnectionTested c1 then testConnection c1
          else if isCreate c1 then createMediaServer c1
          else updateMediaServer c1)"

text \<open>
  The callback that the three \<open>next\<close> callbacks hand to \<open>setTimeout\<close>: navigate
  to the list, then reload the resource.
\<close>

definition timeout_callback :: "EditMediaServerComponent \<Rightarrow> EditMediaServerComponent" where
  "timeout_callback c =
     (let c1 = navigate [''/settings/mediaservers''] c in c1\<lparr>service := reload (service c1)\<rparr>)"

definition onConfirmDelete :: "EditMediaServerComponent \<Rightarrow> EditMediaServerComponent" where
  "onConfirmDelete c = deleteMediaServer c"

definition onConfirmCancel :: "EditMediaServerComponent \<Rightarrow> EditMediaServerComponent" where
  "onConfirmCancel c = navigate [''/settings/mediaservers''] c"

text \<open>\<open>onCancel\<close>: \<open>dirty\<close> is \<open>mediaServerForm().dirty()\<close>; a dirty form only opens the dialog.\<close>

definition onCancel :: "bool \<Rightarrow> EditMediaServerComponent \<Rightarrow> EditMediaServerComponent" where
  "onCancel dirty c = (if dirty then c else navigate [''/settings/mediaservers''] c)"

subsection \<open>Runs of the component\<close>

text \<open>
  What can happen to a component between its construction and its destruction: the
  user edits a bound field (the form writes the new value into the signal
  \<open>mediaServerCreate\<close>), submits, cancels or confirms a delete; a response of the
  backend runs the \<open>next\<close> or \<open>error\<close> callback of a subscription; a timer fires;
  the router binds the input (\<open>InputBound\<close> carries the value after the transform); the resource changes its value or its loading flag; an effect runs.
  \<open>fire\<close> is one such event, \<open>run\<close> a sequence of them, and the states of
  \<open>reachable svc\<close> are those a component constructed on the service state \<open>svc\<close>
  can be in.
\<close>

datatype event =
    FieldInput MediaServerCreate
  | Submit
  | Cancel bool
  | ConfirmCancel
  | ConfirmDelete
  | TestNext string
  | TestError string
  | AddNext
  | AddError string
  | UpdateNext
  | UpdateError string
  | DeleteNext
  | DeleteError string
  | TimerFired
  | InputBound int
  | ResourceChange "MediaServerRead list" bool
  | RunMediaServerIDeffect
  | RunMediaServerEffect

fun fire :: "event \<Rightarrow> EditMediaServerComponent \<Rightarrow> EditMediaServerComponent" where
  "fire (FieldInput f) c = c\<lparr>mediaServerCreate := f\<rparr>"
| "fire Submit c = onSubmit c"
| "fire (Cancel dirty) c = onCancel dirty c"
| "fire ConfirmCancel c = onConfirmCancel c"
| "fire ConfirmDelete c = onConfirmDelete c"
| "fire (TestNext result) c = testConnection_next result c"
| "fire (TestError msg) c = testConnection_error msg c"
| "fire AddNext c = createMediaServer_next c"
| "fire (AddError msg) c = createMediaServer_error msg c"
| "fire UpdateNext c = updateMediaServer_next c"
| "fire (UpdateError msg) c = updateMediaServer_error msg c"
| "fire DeleteNext c = deleteMediaServer_next c"
| "fire (DeleteError msg) c = deleteMediaServer_error msg c"
| "fire TimerFired c = timeout_callback c"
| "fire (InputBound i) c = c\<lparr>mediaServerId := i\<rparr>"
| "fire (ResourceChange servers loading) c =
     c\<lparr>service := (service c)\<lparr>mediaServers := servers, isLoading := loading\<rparr>\<rparr>"
| "fire RunMediaServerIDeffect c = mediaServerIDeffect c"
| "fire RunMediaServerEffect c = mediaServerEffect c"

fun run :: "event list \<Rightarrow> EditMediaServerComponent \<Rightarrow> EditMediaServerComponent" where
  "run [] c = c"
| "run (e # es) c = run es (fire e c)"

inductive reachable :: "MediaServerService \<Rightarrow> EditMediaServerComponent \<Rightarrow> bool"
  for svc :: MediaServerService where
  construct: "reachable svc (new_EditMediaServerComponent svc)"
| step: "reachable svc c \<Longrightarrow> reachable svc (fire e c)"

text \<open>An update payload is complete when none of its five fields is missing.\<close>

definition complete :: "MediaServerUpdate \<Rightarrow> bool" where
  "complete u =
     (name_opt u \<noteq> None \<and> server_type_opt u \<noteq> None \<and> url_opt u \<noteq> None
      \<and> api_key_opt u \<noteq> None \<and> enabled_opt u \<noteq> None)"

fun complete_update :: "request \<Rightarrow> bool" where
  "complete_update (UpdateReq i u) = complete u"
| "complete_update r = True"

subsection \<open>Concrete states used to run the definitions\<close>

definition home_emby :: MediaServerCreate where
  "home_emby =
     \<lparr>name = ''Home Emby'', server_type = Emby, url = ''http://192.168.1.5:8096'',
      api_key = ''1234567890'', enabled = True\<rparr>"

definition attic_plex :: MediaServerCreate where
  "attic_plex =
     \<lparr>name = ''Attic Plex'', server_type = Plex, url = ''https://plex.local:32400'',
      api_key = ''abcdefghijkl'', enabled = False\<rparr>"

definition server1 :: MediaServerRead where
  "server1 =
     \<lparr>name = ''Home Emby'', server_type = Emby, url = ''http://192.168.1.5:8096'',
      api_key = ''1234567890'', enabled = True,
      id' = 1, added_at = ''2025-01-01T00:00:00.000Z''\<rparr>"

definition server2 :: MediaServerRead where
  "server2 =
     \<lparr>name = ''Attic Plex'', server_type = Plex, url = ''https://plex.local:32400'',
      api_key = ''abcdefghijkl'', enabled = False,
      id' = 2, added_at = ''2025-02-02T00:00:00.000Z''\<rparr>"

definition svc0 :: MediaServerService where
  "svc0 =
     \<lparr>mediaServers = [server1, server2], isLoading = False,
      constructedAt = ''2025-03-03T00:00:00.000Z'', mediaServerID = - 1,
      requests = [], toasts = [], reloads = 0\<rparr>"

definition short_key :: MediaServerCreate where
  "short_key = home_emby\<lparr>api_key := ''secret''\<rparr>"

definition ftp_url :: MediaServerCreate where
  "ftp_url = home_emby\<lparr>url := ''ftp://192.168.1.5''\<rparr>"

definition component0 :: EditMediaServerComponent where
  "component0 = new_EditMediaServerComponent svc0"

definition create_view :: EditMediaServerComponent where
  "create_view = run [InputBound (- 1), RunMediaServerIDeffect, RunMediaServerEffect] component0"

definition edit_view :: EditMediaServerComponent where
  "edit_view = run [InputBound 1, RunMediaServerIDeffect, RunMediaServerEffect] component0"

definition filled :: EditMediaServerComponent where
  "filled = fire (FieldInput home_emby) create_view"

definition creating :: EditMediaServerComponent where
  "creating = run [Submit, TestNext ''Connection successful'', Submit] filled"

definition updating :: EditMediaServerComponent where
  "updating = run [Submit, TestNext ''Connection successful'', Submit] edit_view"

section \<open>The selected server\<close>

lemma find_member: "find P xs = Some x \<Longrightarrow> x \<in> set xs \<and> P x"
  by (induction xs) (auto split: if_splits)

lemma find_distinct_key:
  "distinct (map f xs) \<Longrightarrow> s \<in> set xs \<Longrightarrow> find (\<lambda>x. f x = f s) xs = Some s"
  by (induction xs) auto

lemma find_absent: "(\<forall>s\<in>set xs. \<not> P s) \<Longrightarrow> find P xs = None"
  by (induction xs) auto

lemma selectedMediaServer_absent:
  "(\<forall>s\<in>set (mediaServers svc). id' s \<noteq> mediaServerID svc) \<Longrightarrow>
     selectedMediaServer svc = newMediaServer svc"
  using find_absent [of "mediaServers svc" "\<lambda>s. id' s = mediaServerID svc"]
  by (simp add: selectedMediaServer_def)

text \<open>
  C1. When the targeted id matches an entity \<open>s\<close> of the snapshot,
  \<open>selectedMediaServer\<close> returns an entity of the snapshot with that id, and it is
  \<open>s\<close> itself when the ids of the snapshot are unique (the invariant of the data
  model); when no entity of the snapshot has the targeted id, it returns the
  placeholder, whose id is -1.
\<close>

theorem selectedMediaServer_lookup:
  "(\<forall>s\<in>set (mediaServers svc). id' s = mediaServerID svc \<longrightarrow>
       selectedMediaServer svc \<in> set (mediaServers svc)
       \<and> id' (selectedMediaServer svc) = mediaServerID svc
       \<and> (distinct (map id' (mediaServers svc)) \<longrightarrow> selectedMediaServer svc = s))
   \<and> ((\<forall>s\<in>set (mediaServers svc). id' s \<noteq> mediaServerID svc) \<longrightarrow>
       selectedMediaServer svc = newMediaServer svc \<and> id' (selectedMediaServer svc) = - 1)"
proof (intro conjI ballI impI)
  fix s assume s: "s \<in> set (mediaServers svc)" and k: "id' s = mediaServerID svc"
  then obtain x where x: "find (\<lambda>s. id' s = mediaServerID svc) (mediaServers svc) = Some x"
    by (cases "find (\<lambda>s. id' s = mediaServerID svc) (mediaServers svc)")
       (auto simp: find_None_iff)
  then have sel: "selectedMediaServer svc = x"
    by (simp add: selectedMediaServer_def)
  from find_member [OF x] show "selectedMediaServer svc \<in> set (mediaServers svc)"
    and "id' (selectedMediaServer svc) = mediaServerID svc"
    by (simp_all add: sel)
  assume "distinct (map id' (mediaServers svc))"
  from find_distinct_key [OF this s] show "selectedMediaServer svc = s"
    by (simp add: selectedMediaServer_def k)
next
  assume a: "\<forall>s\<in>set (mediaServers svc). id' s \<noteq> mediaServerID svc"
  then show "selectedMediaServer svc = newMediaServer svc"
    by (rule selectedMediaServer_absent)
  then show "id' (selectedMediaServer svc) = - 1"
    by (simp add: newMediaServer_def)
qed

theorem selectedMediaServer_lookup_witness:
  "server2 \<in> set (mediaServers (svc0\<lparr>mediaServerID := 2\<rparr>))
   \<and> id' server2 = mediaServerID (svc0\<lparr>mediaServerID := 2\<rparr>)
   \<and> distinct (map id' (mediaServers (svc0\<lparr>mediaServerID := 2\<rparr>)))
   \<and> selectedMediaServer (svc0\<lparr>mediaServerID := 2\<rparr>) = server2
   \<and> mediaServerID (svc0\<lparr>mediaServerID := 7\<rparr>)
       \<notin> set (map id' (mediaServers (svc0\<lparr>mediaServerID := 7\<rparr>)))
   \<and> id' (selectedMediaServer (svc0\<lparr>mediaServerID := 7\<rparr>)) = - 1"
proof -
  let ?A = "svc0\<lparr>mediaServerID := 2\<rparr>" and ?B = "svc0\<lparr>mediaServerID := 7\<rparr>"
  have a: "server2 \<in> set (mediaServers ?A)" "id' server2 = mediaServerID ?A"
    "distinct (map id' (mediaServers ?A))"
    by (simp_all add: svc0_def server1_def server2_def)
  have b: "\<forall>s\<in>set (mediaServers ?B). id' s \<noteq> mediaServerID ?B"
    by (simp add: svc0_def server1_def server2_def)
  from selectedMediaServer_lookup [of ?A] a have "selectedMediaServer ?A = server2"
    by blast
  moreover from selectedMediaServer_lookup [of ?B] b have "id' (selectedMediaServer ?B) = - 1"
    by blast
  moreover have "mediaServerID ?B \<notin> set (map id' (mediaServers ?B))"
    by (simp add: svc0_def server1_def server2_def)
  ultimately show ?thesis using a by blast
qed

text \<open>
  C10. Two targeted ids that are both absent from the same snapshot select the same
  value: the placeholder of the service, whose \<open>added_at\<close> was read once at
  construction.
\<close>

theorem selectedMediaServer_absent_same:
  assumes "\<forall>s\<in>set (mediaServers svc). id' s \<noteq> i \<and> id' s \<noteq> j"
  shows "selectedMediaServer (svc\<lparr>mediaServerID := i\<rparr>)
           = selectedMediaServer (svc\<lparr>mediaServerID := j\<rparr>)
         \<and> selectedMediaServer (svc\<lparr>mediaServerID := i\<rparr>) = newMediaServer svc"
proof -
  have "selectedMediaServer (svc\<lparr>mediaServerID := k\<rparr>) = newMediaServer svc"
    if "\<forall>s\<in>set (mediaServers svc). id' s \<noteq> k" for k
    using selectedMediaServer_absent [of "svc\<lparr>mediaServerID := k\<rparr>"] that
    by (simp add: newMediaServer_def)
  with assms show ?thesis by simp
qed

theorem selectedMediaServer_absent_same_witness:
  "7 \<notin> set (map id' (mediaServers svc0)) \<and> 42 \<notin> set (map id' (mediaServers svc0))
   \<and> selectedMediaServer (svc0\<lparr>mediaServerID := 7\<rparr>)
       = selectedMediaServer (svc0\<lparr>mediaServerID := 42\<rparr>)
   \<and> added_at (selectedMediaServer (svc0\<lparr>mediaServerID := 7\<rparr>))
       = ''2025-03-03T00:00:00.000Z''"
proof -
  have h: "\<forall>s\<in>set (mediaServers svc0). id' s \<noteq> 7 \<and> id' s \<noteq> 42"
    by (simp add: svc0_def server1_def server2_def)
  from selectedMediaServer_absent_same [OF h]
  have e: "selectedMediaServer (svc0\<lparr>mediaServerID := 7\<rparr>)
             = selectedMediaServer (svc0\<lparr>mediaServerID := 42\<rparr>)"
    and n: "selectedMediaServer (svc0\<lparr>mediaServerID := 7\<rparr>) = newMediaServer svc0"
    by blast+
  have "added_at (newMediaServer svc0) = ''2025-03-03T00:00:00.000Z''"
    by (simp add: newMediaServer_def svc0_def)
  moreover have "7 \<notin> set (map id' (mediaServers svc0))"
    and "42 \<notin> set (map id' (mediaServers svc0))"
    by (simp_all add: svc0_def server1_def server2_def)
  ultimately show ?thesis using e n by metis
qed

text \<open>
  C6, as stated: the placeholder selected for an absent id has \<open>enabled = true\<close> and
  the empty string in every other field. It fails on \<open>server_type\<close>, which is
  \<open>MediaServerType.Emby\<close>, the string \<open>emby\<close> (and on \<open>added_at\<close>, the
  construction time of the service).
\<close>

theorem placeholder_all_empty_counterexample:
  "\<not> (enabled (selectedMediaServer (svc0\<lparr>mediaServerID := 7\<rparr>))
      \<and> name (selectedMediaServer (svc0\<lparr>mediaServerID := 7\<rparr>)) = ''''
      \<and> MediaServerType_value (server_type (selectedMediaServer (svc0\<lparr>mediaServerID := 7\<rparr>))) = ''''
      \<and> url (selectedMediaServer (svc0\<lparr>mediaServerID := 7\<rparr>)) = ''''
      \<and> api_key (selectedMediaServer (svc0\<lparr>mediaServerID := 7\<rparr>)) = ''''
      \<and> added_at (selectedMediaServer (svc0\<lparr>mediaServerID := 7\<rparr>)) = '''')"
  by (simp add: selectedMediaServer_def svc0_def server1_def server2_def newMediaServer_def)

text \<open>
  C6, amended: the placeholder selected for an absent id has \<open>id = -1\<close>,
  \<open>enabled = true\<close>, the empty string in \<open>name\<close>, \<open>url\<close> and \<open>api_key\<close>,
  the server type Emby (the string \<open>emby\<close>), and in \<open>added_at\<close> the time at which
  the service was constructed.
\<close>

theorem placeholder_fields:
  assumes "\<forall>s\<in>set (mediaServers svc). id' s \<noteq> mediaServerID svc"
  shows "id' (selectedMediaServer svc) = - 1
         \<and> enabled (selectedMediaServer svc)
         \<and> name (selectedMediaServer svc) = ''''
         \<and> url (selectedMediaServer svc) = ''''
         \<and> api_key (selectedMediaServer svc) = ''''
         \<and> server_type (selectedMediaServer svc) = Emby
         \<and> MediaServerType_value (server_type (selectedMediaServer svc)) = ''emby''
         \<and> added_at (selectedMediaServer svc) = constructedAt svc"
  using selectedMediaServer_absent [OF assms] by (simp add: newMediaServer_def)

theorem placeholder_fields_witness:
  "mediaServerID (svc0\<lparr>mediaServerID := 7\<rparr>)
     \<notin> set (map id' (mediaServers (svc0\<lparr>mediaServerID := 7\<rparr>)))
   \<and> id' (selectedMediaServer (svc0\<lparr>mediaServerID := 7\<rparr>)) = - 1
   \<and> enabled (selectedMediaServer (svc0\<lparr>mediaServerID := 7\<rparr>))
   \<and> MediaServerType_value (server_type (selectedMediaServer (svc0\<lparr>mediaServerID := 7\<rparr>)))
       = ''emby''"
proof -
  have h: "\<forall>s\<in>set (mediaServers (svc0\<lparr>mediaServerID := 7\<rparr>)).
             id' s \<noteq> mediaServerID (svc0\<lparr>mediaServerID := 7\<rparr>)"
    by (simp add: svc0_def server1_def server2_def)
  have "mediaServerID (svc0\<lparr>mediaServerID := 7\<rparr>)
          \<notin> set (map id' (mediaServers (svc0\<lparr>mediaServerID := 7\<rparr>)))"
    by (simp add: svc0_def server1_def server2_def)
  with placeholder_fields [OF h] show ?thesis by blast
qed

section \<open>The existence check and its notification\<close>

lemma list_ex_id: "list_ex (\<lambda>s. id' s = i) xs \<longleftrightarrow> (\<exists>s\<in>set xs. id' s = i)"
  by (simp add: list_ex_iff)

text \<open>
  C4. \<open>mediaServerExists(-1)\<close> leaves the notifications as they are, whatever the
  snapshot holds; for an id other than -1 that no entity of the snapshot has, it
  returns false and emits exactly one notification, of kind \<open>error\<close>; for an id
  that an entity of the snapshot has, it returns true and emits nothing.
\<close>

theorem mediaServerExists_notifications:
  "toasts (snd (mediaServerExists (- 1) svc)) = toasts svc
   \<and> (i \<noteq> - 1 \<and> (\<forall>s\<in>set (mediaServers svc). id' s \<noteq> i) \<longrightarrow>
        fst (mediaServerExists i svc) = False
        \<and> toasts (snd (mediaServerExists i svc))
            = toasts svc @ [(''Media Server with ID '' @ [CHR 0x27] @ number_toString i
                             @ [CHR 0x27] @ '' does not exist.'', ''error'')])
   \<and> ((\<exists>s\<in>set (mediaServers svc). id' s = i) \<longrightarrow> mediaServerExists i svc = (True, svc))"
  by (auto simp: mediaServerExists_def showToast_def list_ex_id Let_def)

theorem mediaServerExists_notifications_witness:
  "(7::int) \<noteq> - 1 \<and> 7 \<notin> set (map id' (mediaServers svc0))
   \<and> fst (mediaServerExists 7 svc0) = False
   \<and> toasts (snd (mediaServerExists 7 svc0))
       = [(''Media Server with ID '' @ [CHR 0x27] @ ''7'' @ [CHR 0x27]
           @ '' does not exist.'', ''error'')]
   \<and> (\<exists>s\<in>set (mediaServers svc0). id' s = 2)
   \<and> mediaServerExists 2 svc0 = (True, svc0)
   \<and> toasts (snd (mediaServerExists (- 1) svc0)) = []"
proof -
  have d: "number_toString 7 = ''7''"
    by code_simp
  have h7: "(7::int) \<noteq> - 1 \<and> (\<forall>s\<in>set (mediaServers svc0). id' s \<noteq> 7)"
    and h2: "\<exists>s\<in>set (mediaServers svc0). id' s = 2"
    by (simp_all add: svc0_def server1_def server2_def)
  from mediaServerExists_notifications [of svc0 7] h7
  have "fst (mediaServerExists 7 svc0) = False"
    and "toasts (snd (mediaServerExists 7 svc0))
           = toasts svc0 @ [(''Media Server with ID '' @ [CHR 0x27] @ number_toString 7
                             @ [CHR 0x27] @ '' does not exist.'', ''error'')]"
    and "toasts (snd (mediaServerExists (- 1) svc0)) = toasts svc0"
    by blast+
  moreover have "toasts svc0 = []"
    by (simp add: svc0_def)
  moreover from mediaServerExists_notifications [of svc0 2] h2
  have "mediaServerExists 2 svc0 = (True, svc0)"
    by blast
  moreover have "7 \<notin> set (map id' (mediaServers svc0))"
    by (simp add: svc0_def server1_def server2_def)
  ultimately show ?thesis using h2 d by simp
qed

section \<open>Validation\<close>

lemma prefix_take: "prefix p v \<longleftrightarrow> take (length p) v = p"
proof
  assume "prefix p v"
  then show "take (length p) v = p"
    by (auto simp: prefix_def)
next
  assume "take (length p) v = p"
  then have "v = p @ drop (length p) v"
    by (metis append_take_drop_id)
  then show "prefix p v"
    by (metis prefixI)
qed

lemma take_append_split:
  assumes "length a = m"
  shows "take (m + n) v = a @ b \<longleftrightarrow> take m v = a \<and> take n (drop m v) = b"
proof
  assume h: "take (m + n) v = a @ b"
  have "take m v = take m (take (m + n) v)"
    by simp
  moreover have "take n (drop m v) = drop m (take (m + n) v)"
    by (simp add: drop_take)
  ultimately show "take m v = a \<and> take n (drop m v) = b"
    using assms by (simp add: h)
next
  assume "take m v = a \<and> take n (drop m v) = b"
  then show "take (m + n) v = a @ b"
    by (simp add: take_add)
qed

text \<open>The regular expression accepts exactly the values that start with one of the two schemes.\<close>

lemma url_regex_test_prefix:
  "url_regex_test v \<longleftrightarrow> prefix ''http://'' v \<or> prefix ''https://'' v"
proof -
  have a: "take 7 v = ''http://'' \<longleftrightarrow> take 4 v = ''http'' \<and> take 3 (drop 4 v) = ''://''"
    using take_append_split [of "''http''" 4 3 v "''://''"] by simp
  have b: "take 8 v = ''https://'' \<longleftrightarrow>
      take 4 v = ''http'' \<and> take 1 (drop 4 v) = ''s'' \<and> take 3 (drop 1 (drop 4 v)) = ''://''"
    using take_append_split [of "''http''" 4 4 v "''s://''"]
      take_append_split [of "''s''" 1 3 "drop 4 v" "''://''"] by simp
  have l7: "length ''http://'' = 7" and l8: "length ''https://'' = 8"
    by simp_all
  have p7: "prefix ''http://'' v \<longleftrightarrow> take 7 v = ''http://''"
    using prefix_take [of "''http://''" v] unfolding l7 .
  have p8: "prefix ''https://'' v \<longleftrightarrow> take 8 v = ''https://''"
    using prefix_take [of "''https://''" v] unfolding l8 .
  show ?thesis
    unfolding url_regex_test_def Let_def p7 p8 a b by (split if_split) blast
qed

lemma valid_iff:
  "valid f \<longleftrightarrow>
     10 \<le> length (api_key f) \<and> length (api_key f) \<le> 200 \<and> 3 \<le> length (name f)
     \<and> (prefix ''http://'' (url f) \<or> prefix ''https://'' (url f))"
  unfolding valid_def mediaServerForm_errors_def required_def minLength_def maxLength_def
    pattern_url_def isEmpty_def url_regex_test_prefix
  by (auto simp: prefix_def)

lemmas handler_defs =
  onSubmit_def checkFormValidity_def testConnection_def createMediaServer_def
  updateMediaServer_def onCancel_def onConfirmCancel_def navigate_def onConfirmDelete_def
  deleteMediaServer_def testConnection_next_def testConnection_error_def
  createMediaServer_next_def createMediaServer_error_def updateMediaServer_next_def
  updateMediaServer_error_def deleteMediaServer_next_def deleteMediaServer_error_def
  setTimeout_def timeout_callback_def mediaServerIDeffect_def mediaServerEffect_def

lemmas service_defs =
  addMediaServer_def testMediaServer_def updateMediaServer_call_def deleteMediaServer_call_def
  reload_def showToast_def mediaServerExists_def

text \<open>
  C5. When the \<open>api_key\<close> of the form is shorter than 10 characters, or its \<open>url\<close>
  starts with neither \<open>http://\<close> nor \<open>https://\<close>, or its \<open>name\<close> is shorter
  than 3 characters, a submit only sets the inline error: the state is otherwise
  unchanged and no request is issued, by \<open>onSubmit\<close> or by the test, create and
  update handlers.
\<close>

theorem invalid_form_blocks_submit:
  assumes "length (api_key (mediaServerCreate c)) < 10
           \<or> \<not> (prefix ''http://'' (url (mediaServerCreate c))
                \<or> prefix ''https://'' (url (mediaServerCreate c)))
           \<or> length (name (mediaServerCreate c)) < 3"
  shows "onSubmit c
           = c\<lparr>submitResult := ''Form is invalid, please correct the errors and try again.''\<rparr>
         \<and> requests (service (onSubmit c)) = requests (service c)
         \<and> requests (service (testConnection c)) = requests (service c)
         \<and> requests (service (createMediaServer c)) = requests (service c)
         \<and> requests (service (updateMediaServer c)) = requests (service c)"
proof -
  from assms have "\<not> valid (mediaServerCreate c)"
    by (auto simp: valid_iff)
  then show ?thesis
    by (simp add: handler_defs)
qed

theorem invalid_form_blocks_submit_witness:
  "length (api_key (mediaServerCreate (fire (FieldInput short_key) create_view))) < 10
   \<and> requests (service (onSubmit (fire (FieldInput short_key) create_view))) = []
   \<and> submitResult (onSubmit (fire (FieldInput short_key) create_view))
       = ''Form is invalid, please correct the errors and try again.''
   \<and> \<not> prefix ''http://'' (url (mediaServerCreate (fire (FieldInput ftp_url) create_view)))
   \<and> \<not> prefix ''https://'' (url (mediaServerCreate (fire (FieldInput ftp_url) create_view)))
   \<and> requests (service (onSubmit (fire (FieldInput ftp_url) create_view))) = []"
proof -
  let ?a = "fire (FieldInput short_key) create_view"
    and ?b = "fire (FieldInput ftp_url) create_view"
  have ha: "length (api_key (mediaServerCreate ?a)) < 10"
    by code_simp
  have hb: "\<not> prefix ''http://'' (url (mediaServerCreate ?b))"
    "\<not> prefix ''https://'' (url (mediaServerCreate ?b))"
    by code_simp+
  have ra: "requests (service ?a) = []" and rb: "requests (service ?b) = []"
    by code_simp+
  from ha invalid_form_blocks_submit [of ?a]
  have "requests (service (onSubmit ?a)) = requests (service ?a)"
    and "onSubmit ?a
           = ?a\<lparr>submitResult := ''Form is invalid, please correct the errors and try again.''\<rparr>"
    by blast+
  moreover from hb invalid_form_blocks_submit [of ?b]
  have "requests (service (onSubmit ?b)) = requests (service ?b)"
    by blast
  ultimately show ?thesis
    using ha hb ra rb by simp
qed

section \<open>Entry\<close>

text \<open>
  C7. When the route parameter is absent (the input is bound to \<open>undefined\<close>), the
  transform yields -1, and once the resource has loaded the entry effect sets
  \<open>isCreate\<close>, targets -1, and neither navigates nor notifies: the very state it
  reaches when the parameter is -1, as a number or as a string that converts to -1.
  The hydration that follows keeps \<open>isCreate\<close> when the snapshot holds no entity
  with id -1.
\<close>

theorem absent_parameter_is_create:
  assumes "\<not> isLoading (service c)"
  shows "mediaServerId (setInput_mediaServerId p Undefined c) = - 1
    \<and> isCreate (mediaServerIDeffect (setInput_mediaServerId p Undefined c))
    \<and> mediaServerID (service (mediaServerIDeffect (setInput_mediaServerId p Undefined c))) = - 1
    \<and> navigations (mediaServerIDeffect (setInput_mediaServerId p Undefined c)) = navigations c
    \<and> toasts (service (mediaServerIDeffect (setInput_mediaServerId p Undefined c)))
        = toasts (service c)
    \<and> mediaServerIDeffect (setInput_mediaServerId p Undefined c)
        = mediaServerIDeffect (setInput_mediaServerId p (NumberValue (- 1)) c)
    \<and> (p s = Some (- 1) \<longrightarrow>
         mediaServerIDeffect (setInput_mediaServerId p Undefined c)
           = mediaServerIDeffect (setInput_mediaServerId p (StringValue s) c))
    \<and> (\<not> isSubmitting c \<and> - 1 \<notin> set (map id' (mediaServers (service c))) \<longrightarrow>
         isCreate (mediaServerEffect (mediaServerIDeffect (setInput_mediaServerId p Undefined c))))"
  using assms
  by (auto simp: setInput_mediaServerId_def mediaServerId_transform_def mediaServerIDeffect_def
      mediaServerEffect_def Let_def selectedMediaServer_def newMediaServer_def
      dest!: find_member split: option.splits)

theorem absent_parameter_is_create_witness:
  "\<not> isLoading (service component0)
   \<and> \<not> isCreate component0
   \<and> isCreate (mediaServerIDeffect (setInput_mediaServerId (\<lambda>s. None) Undefined component0))
   \<and> mediaServerID
       (service (mediaServerIDeffect (setInput_mediaServerId (\<lambda>s. None) Undefined component0)))
       = - 1"
proof -
  have h: "\<not> isLoading (service component0)" and n: "\<not> isCreate component0"
    by code_simp+
  from absent_parameter_is_create [OF h, of "\<lambda>s. None"] h n show ?thesis
    by blast
qed

text \<open>
  C8. On entry, once the resource has loaded, with a target id other than -1 that no
  entity of the snapshot has, the effect navigates to the list route and stops: the
  targeted id of the service, the selected server, the form and \<open>isCreate\<close> are as
  before, no request is issued, and the hydration gives the form it gave before.
\<close>

theorem missing_id_redirects:
  assumes "\<not> isLoading (service c)" and "mediaServerId c \<noteq> - 1"
    and "\<forall>s\<in>set (mediaServers (service c)). id' s \<noteq> mediaServerId c"
  shows "navigations (mediaServerIDeffect c) = navigations c @ [[''/settings/mediaservers'']]
    \<and> mediaServerID (service (mediaServerIDeffect c)) = mediaServerID (service c)
    \<and> selectedMediaServer (service (mediaServerIDeffect c)) = selectedMediaServer (service c)
    \<and> mediaServerCreate (mediaServerIDeffect c) = mediaServerCreate c
    \<and> isCreate (mediaServerIDeffect c) = isCreate c
    \<and> requests (service (mediaServerIDeffect c)) = requests (service c)
    \<and> mediaServerIDeffect c
        = c\<lparr>service := snd (mediaServerExists (mediaServerId c) (service c)),
             navigations := navigations c @ [[''/settings/mediaservers'']]\<rparr>
    \<and> mediaServerCreate (mediaServerEffect (mediaServerIDeffect c))
        = mediaServerCreate (mediaServerEffect c)"
  using assms
  by (auto simp: mediaServerIDeffect_def mediaServerEffect_def Let_def navigate_def
      mediaServerExists_def showToast_def selectedMediaServer_def newMediaServer_def list_ex_iff
      split: option.splits)

theorem missing_id_redirects_witness:
  "\<not> isLoading (service (fire (InputBound 7) component0))
   \<and> mediaServerId (fire (InputBound 7) component0) \<noteq> - 1
   \<and> mediaServerId (fire (InputBound 7) component0)
       \<notin> set (map id' (mediaServers (service (fire (InputBound 7) component0))))
   \<and> navigations (mediaServerIDeffect (fire (InputBound 7) component0))
       = [[''/settings/mediaservers'']]
   \<and> mediaServerID (service (mediaServerIDeffect (fire (InputBound 7) component0))) = - 1"
proof -
  let ?c = "fire (InputBound 7) component0"
  have h: "\<not> isLoading (service ?c)" "mediaServerId ?c \<noteq> - 1"
    "\<forall>s\<in>set (mediaServers (service ?c)). id' s \<noteq> mediaServerId ?c"
    by code_simp+
  have e: "navigations ?c = []" "mediaServerID (service ?c) = - 1"
    "mediaServerId ?c \<notin> set (map id' (mediaServers (service ?c)))"
    by code_simp+
  from missing_id_redirects [OF h]
  have n: "navigations (mediaServerIDeffect ?c) = navigations ?c @ [[''/settings/mediaservers'']]"
    and m: "mediaServerID (service (mediaServerIDeffect ?c)) = mediaServerID (service ?c)"
    by blast+
  have n': "navigations (mediaServerIDeffect ?c) = [[''/settings/mediaservers'']]"
    unfolding n e(1) by simp
  have m': "mediaServerID (service (mediaServerIDeffect ?c)) = - 1"
    unfolding m e(2) by simp
  from h(1,2) e(3) n' m' show ?thesis
    by blast
qed

section \<open>The submit workflow\<close>

text \<open>
  In every state a component can be in, a submission in flight was started from a
  tested form: \<open>isSubmitting\<close> is set by the create and update handlers only, which
  \<open>onSubmit\<close> calls only when \<open>isConnectionTested\<close> holds, and the hydration, which
  clears \<open>isConnectionTested\<close>, does nothing while \<open>isSubmitting\<close> holds.
\<close>

lemma submitting_implies_tested:
  "reachable svc c \<Longrightarrow> isSubmitting c \<longrightarrow> isConnectionTested c"
proof (induction rule: reachable.induct)
  case construct
  then show ?case
    by (simp add: new_EditMediaServerComponent_def)
next
  case (step c e)
  then show ?case
    by (cases e) (auto simp: handler_defs Let_def split: prod.splits if_splits)
qed

lemma reachable_run: "reachable svc c \<Longrightarrow> reachable svc (run es c)"
  by (induction es arbitrary: c) (auto intro: reachable.step)

lemma reachable_create_view: "reachable svc0 create_view"
  unfolding create_view_def component0_def
  by (intro reachable_run reachable.construct)

lemma reachable_edit_view: "reachable svc0 edit_view"
  unfolding edit_view_def component0_def
  by (intro reachable_run reachable.construct)

text \<open>
  C3. While \<open>isSubmitting\<close> is true, the create handler and the update handler
  return before they call the service, and so does \<open>onSubmit\<close> in every state
  whose connection is tested, which is every state a component can be in while it is
  submitting: a repeated submit issues no request.
\<close>

theorem no_request_while_submitting:
  assumes "isSubmitting c"
  shows "requests (service (createMediaServer c)) = requests (service c)
    \<and> requests (service (updateMediaServer c)) = requests (service c)
    \<and> (isConnectionTested c \<longrightarrow> requests (service (onSubmit c)) = requests (service c))
    \<and> (reachable svc c \<longrightarrow> requests (service (onSubmit c)) = requests (service c))"
proof -
  have a: "requests (service (createMediaServer c)) = requests (service c)"
    and b: "requests (service (updateMediaServer c)) = requests (service c)"
    using assms by (simp_all add: handler_defs)
  have t: "requests (service (onSubmit c)) = requests (service c)" if "isConnectionTested c"
    using assms that by (simp add: handler_defs)
  from submitting_implies_tested [of svc c] assms t a b show ?thesis
    by blast
qed

theorem no_request_while_submitting_witness:
  "isSubmitting creating \<and> reachable svc0 creating
   \<and> requests (service creating) = [TestReq home_emby, AddReq home_emby]
   \<and> requests (service (onSubmit creating)) = [TestReq home_emby, AddReq home_emby]
   \<and> requests (service (createMediaServer creating)) = [TestReq home_emby, AddReq home_emby]
   \<and> isSubmitting updating \<and> reachable svc0 updating
   \<and> requests (service (onSubmit updating)) = requests (service updating)"
proof -
  have s: "isSubmitting creating" "isSubmitting updating"
    by code_simp+
  have r: "reachable svc0 creating" "reachable svc0 updating"
    unfolding creating_def updating_def filled_def
    by (intro reachable_run reachable.step reachable_create_view reachable_edit_view)+
  have q: "requests (service creating) = [TestReq home_emby, AddReq home_emby]"
    by code_simp
  from no_request_while_submitting [OF s(1), of svc0] r(1)
  have "requests (service (onSubmit creating)) = requests (service creating)"
    and "requests (service (createMediaServer creating)) = requests (service creating)"
    by blast+
  moreover from no_request_while_submitting [OF s(2), of svc0] r(2)
  have "requests (service (onSubmit updating)) = requests (service updating)"
    by blast
  ultimately show ?thesis
    using s r q by simp
qed

text \<open>Every event extends the log of requests, and an update it adds is complete.\<close>

lemma fire_requests:
  "\<exists>new. requests (service (fire e c)) = requests (service c) @ new
     \<and> list_all complete_update new"
  by (cases e)
     (auto simp: handler_defs service_defs Let_def complete_def asMediaServerUpdate_def
       split: prod.splits if_splits)

lemma reachable_requests:
  "reachable svc c \<Longrightarrow>
     \<exists>new. requests (service c) = requests svc @ new \<and> list_all complete_update new"
proof (induction rule: reachable.induct)
  case construct
  then show ?case
    by (simp add: new_EditMediaServerComponent_def)
next
  case (step c e)
  then obtain new where
    n: "requests (service c) = requests svc @ new" "list_all complete_update new"
    by blast
  from fire_requests [of e c] obtain new' where
    "requests (service (fire e c)) = requests (service c) @ new'"
    "list_all complete_update new'"
    by blast
  with n have "requests (service (fire e c)) = requests svc @ (new @ new')
               \<and> list_all complete_update (new @ new')"
    by simp
  then show ?case
    by blast
qed

text \<open>
  C9. The update handler either issues nothing or issues one update request, for the
  id of the input, whose payload is the whole form: each of the five fields
  \<open>name\<close>, \<open>server_type\<close>, \<open>url\<close>, \<open>api_key\<close> and \<open>enabled\<close> is present with
  the value the form has. In every state a component can be in, every update request
  it has issued since its construction is complete.
\<close>

theorem update_payload_complete:
  "(requests (service (updateMediaServer c)) = requests (service c)
     \<or> requests (service (updateMediaServer c))
        = requests (service c)
          @ [UpdateReq (mediaServerId c) (asMediaServerUpdate (mediaServerCreate c))])
   \<and> complete (asMediaServerUpdate f)
   \<and> asMediaServerUpdate f
       = \<lparr>name_opt = Some (name f), server_type_opt = Some (server_type f),
          url_opt = Some (url f), api_key_opt = Some (api_key f),
          enabled_opt = Some (enabled f)\<rparr>
   \<and> (reachable svc c \<longrightarrow>
        (\<exists>new. requests (service c) = requests svc @ new \<and> list_all complete_update new))"
  using reachable_requests [of svc c]
  by (auto simp: handler_defs service_defs complete_def asMediaServerUpdate_def Let_def)

theorem update_payload_complete_witness:
  "reachable svc0 updating
   \<and> requests (service updating)
       = [TestReq (MediaServerCreate.truncate server1),
          UpdateReq 1
            \<lparr>name_opt = Some ''Home Emby'', server_type_opt = Some Emby,
             url_opt = Some ''http://192.168.1.5:8096'', api_key_opt = Some ''1234567890'',
             enabled_opt = Some True\<rparr>]
   \<and> list_all complete_update (requests (service updating))"
proof -
  have r: "reachable svc0 updating"
    unfolding updating_def
    by (intro reachable_run reachable_edit_view)
  have q: "requests (service updating)
       = [TestReq (MediaServerCreate.truncate server1),
          UpdateReq 1
            \<lparr>name_opt = Some ''Home Emby'', server_type_opt = Some Emby,
             url_opt = Some ''http://192.168.1.5:8096'', api_key_opt = Some ''1234567890'',
             enabled_opt = Some True\<rparr>]"
    by code_simp
  have z: "requests svc0 = []"
    by code_simp
  from update_payload_complete [of updating home_emby svc0] r
  obtain new where "requests (service updating) = requests svc0 @ new"
    and "list_all complete_update new"
    by blast
  then have "list_all complete_update (requests (service updating))"
    unfolding z by simp
  with r q show ?thesis
    by blast
qed

text \<open>
  C2, as stated: the create call carries exactly the form payload that was tested.
  It fails when a field is edited after the test: the form is tested with one
  payload, the test resolves with a success string, the form is changed to another
  valid payload, and the next submit creates with the changed payload, which no test
  call carried.
\<close>

theorem create_payload_tested_counterexample:
  "requests (service (run [Submit, TestNext ''Connection successful'',
                           FieldInput attic_plex, Submit] filled))
     = [TestReq home_emby, AddReq attic_plex]
   \<and> home_emby \<noteq> attic_plex"
  by code_simp

text \<open>
  C2, amended. In create mode, with a valid form, no test passed and no submission in
  flight: a submit issues the test call with the form payload and nothing else; the
  connection counts as tested after that test resolves exactly when the string it
  resolves with contains \<open>success\<close>, whatever the case of its letters, and no other
  event makes it tested or issues a create call; the next submit then issues the
  create call with the payload the form has at that submit, which is the tested
  payload when the form is unchanged, and issues the test call again when the test
  did not resolve with such a string.
\<close>

theorem test_then_create:
  assumes "valid (mediaServerCreate c)" and "\<not> isConnectionTested c"
    and "isCreate c" and "\<not> isSubmitting c"
  shows "requests (service (onSubmit c)) = requests (service c) @ [TestReq (mediaServerCreate c)]
    \<and> (isConnectionTested (testConnection_next r (onSubmit c))
         \<longleftrightarrow> includes_str (toLowerCase r) ''success'')
    \<and> (\<forall>e. isConnectionTested (fire e c) \<longrightarrow>
          (\<exists>r'. e = TestNext r' \<and> includes_str (toLowerCase r') ''success''))
    \<and> (\<forall>e d. requests (service (fire e c)) \<noteq> requests (service c) @ [AddReq d])
    \<and> (includes_str (toLowerCase r) ''success'' \<longrightarrow>
          requests (service (onSubmit (testConnection_next r (onSubmit c))))
            = requests (service c) @ [TestReq (mediaServerCreate c), AddReq (mediaServerCreate c)])
    \<and> (\<not> includes_str (toLowerCase r) ''success'' \<longrightarrow>
          requests (service (onSubmit (testConnection_next r (onSubmit c))))
            = requests (service c) @ [TestReq (mediaServerCreate c), TestReq (mediaServerCreate c)])
    \<and> (includes_str (toLowerCase r) ''success'' \<and> valid g \<longrightarrow>
          requests (service (onSubmit (fire (FieldInput g) (testConnection_next r (onSubmit c)))))
            = requests (service c) @ [TestReq (mediaServerCreate c), AddReq g])"
proof -
  have 3: "\<exists>r'. e = TestNext r' \<and> includes_str (toLowerCase r') ''success''"
    if "isConnectionTested (fire e c)" for e
    using that assms
    by (cases e) (auto simp: handler_defs Let_def split: prod.splits if_splits)
  have 4: "requests (service (fire e c)) \<noteq> requests (service c) @ [AddReq d]" for e d
    using assms
    by (cases e) (auto simp: handler_defs service_defs Let_def split: prod.splits if_splits)
  have 5: "requests (service (onSubmit c)) = requests (service c) @ [TestReq (mediaServerCreate c)]"
    and "isConnectionTested (testConnection_next r (onSubmit c))
           \<longleftrightarrow> includes_str (toLowerCase r) ''success''"
    and "includes_str (toLowerCase r) ''success'' \<longrightarrow>
          requests (service (onSubmit (testConnection_next r (onSubmit c))))
            = requests (service c) @ [TestReq (mediaServerCreate c), AddReq (mediaServerCreate c)]"
    and "\<not> includes_str (toLowerCase r) ''success'' \<longrightarrow>
          requests (service (onSubmit (testConnection_next r (onSubmit c))))
            = requests (service c) @ [TestReq (mediaServerCreate c), TestReq (mediaServerCreate c)]"
    and "includes_str (toLowerCase r) ''success'' \<and> valid g \<longrightarrow>
          requests (service (onSubmit (fire (FieldInput g) (testConnection_next r (onSubmit c)))))
            = requests (service c) @ [TestReq (mediaServerCreate c), AddReq g]"
    using assms by (simp_all add: handler_defs service_defs Let_def)
  with 3 4 show ?thesis
    by blast
qed

theorem test_then_create_witness:
  "valid (mediaServerCreate filled) \<and> \<not> isConnectionTested filled
   \<and> isCreate filled \<and> \<not> isSubmitting filled
   \<and> includes_str (toLowerCase ''Connection SUCCESSFUL'') ''success''
   \<and> requests (service (onSubmit filled)) = [TestReq home_emby]
   \<and> requests (service (onSubmit (testConnection_next ''Connection SUCCESSFUL'' (onSubmit filled))))
       = [TestReq home_emby, AddReq home_emby]
   \<and> \<not> includes_str (toLowerCase ''Connection refused'') ''success''
   \<and> requests (service (onSubmit (testConnection_next ''Connection refused'' (onSubmit filled))))
       = [TestReq home_emby, TestReq home_emby]"
proof -
  have h: "valid (mediaServerCreate filled)" "\<not> isConnectionTested filled"
    "isCreate filled" "\<not> isSubmitting filled"
    by code_simp+
  have y: "includes_str (toLowerCase ''Connection SUCCESSFUL'') ''success''"
    and n: "\<not> includes_str (toLowerCase ''Connection refused'') ''success''"
    by code_simp+
  have z: "requests (service filled) = []" "mediaServerCreate filled = home_emby"
    by code_simp+
  from test_then_create [OF h, of "''Connection SUCCESSFUL''"] y
  have "requests (service (onSubmit filled)) = requests (service filled) @ [TestReq (mediaServerCreate filled)]"
    and "requests (service (onSubmit (testConnection_next ''Connection SUCCESSFUL'' (onSubmit filled))))
       = requests (service filled) @ [TestReq (mediaServerCreate filled), AddReq (mediaServerCreate filled)]"
    by blast+
  moreover from test_then_create [OF h, of "''Connection refused''"] n
  have "requests (service (onSubmit (testConnection_next ''Connection refused'' (onSubmit filled))))
       = requests (service filled) @ [TestReq (mediaServerCreate filled), TestReq (mediaServerCreate filled)]"
    by blast
  ultimately show ?thesis
    using h y n unfolding z by simp
qed

end
